theory Spec2Isabelle
  imports Main "HOL-Library.AList" "HOL-Library.Sublist"
begin

section \<open>Python values: exceptions and results\<close>

text \<open>
  The storage service is Python 2 on Django. A call either returns a value or raises; a
  raise is the left injection of a sum, so every \<^verbatim>\<open>raise\<close>, failed lookup and
  undefined name of the source is a branch of the model. \<open>OSError\<close> and \<open>IOError\<close>
  carry the errno.
\<close>

datatype exn =
    NameError string
  | KeyError string
  | OSError nat
  | IOError nat
  | ShutilError
  | DoesNotExist
  | MultipleObjectsReturned
  | URLError
  | JSONError
  | XMLSyntaxError
  | AttributeError
  | AssertionError

section \<open>Database rows\<close>

text \<open>
  Timestamps are \<open>nat\<close> (the reading of the clock is an argument of every function that
  reads it); a nullable column is an \<open>option\<close>. A path is the list of its components,
  and \<^verbatim>\<open>os.path.join\<close> of two relative pieces is \<open>@\<close>.
\<close>

type_synonym path = "string list"

record Space =
  space_uuid :: string
  access_protocol :: string
  space_path :: path
  verified :: bool
  last_verified :: "nat option"

record Pipeline =
  pipeline_uuid :: string
  remote_name :: string
  api_username :: string
  api_key :: string

record Location =
  loc_uuid :: string
  space :: Space
  purpose :: string
  relative_path :: path
  description :: string
  pipeline :: "string option"
  ready_for_finalization :: bool
  deposit_completion_time :: "nat option"

record LocationDownloadTask =
  location :: string
  downloads_attempted :: nat
  downloads_completed :: nat
  download_completion_time :: "nat option"

record SwordServer =
  ss_pipeline :: Pipeline
  ss_space :: string

section \<open>The filesystem\<close>

text \<open>
  One rooted tree: a file holds its bytes, a directory its entries by name.
\<close>

datatype node = File string | Dir "(string \<times> node) list"

fun lookup :: "node \<Rightarrow> path \<Rightarrow> node option" where
  "lookup n [] = Some n"
| "lookup (File b) (x # xs) = None"
| "lookup (Dir es) (x # xs) = (case map_of es x of None \<Rightarrow> None | Some c \<Rightarrow> lookup c xs)"

definition exists :: "node \<Rightarrow> path \<Rightarrow> bool" where
  "exists t p = (lookup t p \<noteq> None)"

definition isdir :: "node \<Rightarrow> path \<Rightarrow> bool" where
  "isdir t p = (case lookup t p of Some (Dir es) \<Rightarrow> True | _ \<Rightarrow> False)"



text \<open>
  \<open>put p v t\<close> sets the entry at \<open>p\<close> to \<open>v\<close> (\<open>None\<close> deletes it); it needs the
  parent of \<open>p\<close> to be a directory and does not replace the root.
\<close>

fun put :: "path \<Rightarrow> node option \<Rightarrow> node \<Rightarrow> node option" where
  "put [] v t = None"
| "put (x # xs) v (File b) = None"
| "put [x] v (Dir es) =
     Some (Dir (case v of None \<Rightarrow> AList.delete x es | Some c \<Rightarrow> AList.update x c es))"
| "put (x # y # ys) v (Dir es) =
     (case map_of es x of
        None \<Rightarrow> None
      | Some c \<Rightarrow>
          (case put (y # ys) v c of
             None \<Rightarrow> None
           | Some c' \<Rightarrow> Some (Dir (AList.update x c' es))))"

text \<open>\<^verbatim>\<open>os.makedirs\<close> without its EEXIST: every missing directory on the way is created.\<close>

fun mkdirs :: "path \<Rightarrow> node \<Rightarrow> node option" where
  "mkdirs [] t = (case t of Dir es \<Rightarrow> Some t | File b \<Rightarrow> None)"
| "mkdirs (x # xs) (File b) = None"
| "mkdirs (x # xs) (Dir es) =
     (case mkdirs xs (case map_of es x of None \<Rightarrow> Dir [] | Some c \<Rightarrow> c) of
        None \<Rightarrow> None
      | Some c' \<Rightarrow> Some (Dir (AList.update x c' es)))"




text \<open>
  \<^verbatim>\<open>shutil.move\<close> (Python 2.7). A destination that is a directory receives the source
  under the source's base name, unless that name is taken. Then \<^verbatim>\<open>os.rename\<close>, and
  where that fails the copy-and-delete fallback: a directory is never moved into itself,
  \<^verbatim>\<open>copytree\<close> creates the missing parents of the destination and refuses a
  destination that exists (EEXIST, 17); a file replaces a file and needs the parent of the
  destination to exist.
\<close>

definition move :: "path \<Rightarrow> path \<Rightarrow> node \<Rightarrow> exn + node" where
  "move src dst t =
     (if isdir t dst \<and> src = dst then Inr t
      else
        let real_dst = (if isdir t dst then dst @ (if src = [] then [] else [last src]) else dst) in
        if isdir t dst \<and> exists t real_dst then Inl ShutilError
        else case lookup t src of
          None \<Rightarrow> Inl (IOError 2)
        | Some (Dir es) \<Rightarrow>
            if prefix src real_dst then Inl ShutilError
            else if exists t real_dst then Inl (OSError 17)
            else (case mkdirs (butlast real_dst) t of
                    None \<Rightarrow> Inl (OSError 20)
                  | Some t1 \<Rightarrow>
                      (case put real_dst (Some (Dir es)) t1 of
                         None \<Rightarrow> Inl (OSError 20)
                       | Some t2 \<Rightarrow>
                           (case put src None t2 of
                              None \<Rightarrow> Inl (OSError 2)
                            | Some t3 \<Rightarrow> Inr t3)))
        | Some (File b) \<Rightarrow>
            if isdir t real_dst then Inl (OSError 21)
            else if src = real_dst then Inr t
            else (case put real_dst (Some (File b)) t of
                    None \<Rightarrow> Inl (IOError 2)
                  | Some t2 \<Rightarrow>
                      (case put src None t2 of
                         None \<Rightarrow> Inl (OSError 2)
                       | Some t3 \<Rightarrow> Inr t3)))"

section \<open>The world a request handler runs in\<close>

text \<open>
  The filesystem and its mount points, the tables of the database the handlers read and
  write, the batch download processes started so far (\<^verbatim>\<open>Process(...).start()\<close>),
  and the HTTP requests sent to pipelines so far (URL and form fields).
\<close>

record world =
  fs :: node
  mounts :: "path list"
  locations :: "Location list"
  tasks :: "LocationDownloadTask list"
  sword_servers :: "SwordServer list"
  spawned :: "(string \<times> string list) list"
  sent :: "(string \<times> (string \<times> string) list) list"

text \<open>
  Modelled from the spec: \<^verbatim>\<open>helpers.get_deposit\<close> is not among the sources; a deposit
  is a Location row, looked up by its identifier, and the result is \<open>None\<close> when there is
  no such row (the handlers test \<^verbatim>\<open>deposit == None\<close>).
\<close>

definition get_deposit :: "world \<Rightarrow> string \<Rightarrow> Location option" where
  "get_deposit w u = find (\<lambda>l. loc_uuid l = u) (locations w)"

text \<open>\<^verbatim>\<open>Location.full_path\<close>: the space's path joined with the relative path.\<close>

definition full_path :: "Location \<Rightarrow> path" where
  "full_path l = space_path (space l) @ relative_path l"

section \<open>Aggregate downloading status\<close>

text \<open>
  \<^verbatim>\<open>task.downloading_status()\<close> is a method of a model class that is not among the
  sources: it is the parameter \<open>ds\<close>. The loop of \<^verbatim>\<open>deposit_downloading_status\<close>
  carries the two flags \<open>(complete, failed)\<close>; the test for failure is nested in the test
  for incompleteness, as in the source.
\<close>

fun status_loop ::
  "(LocationDownloadTask \<Rightarrow> string) \<Rightarrow> LocationDownloadTask list \<Rightarrow> bool \<times> bool \<Rightarrow> bool \<times> bool"
where
  "status_loop ds [] (complete, failed) = (complete, failed)"
| "status_loop ds (task # ts) (complete, failed) =
     (if ds task \<noteq> ''complete''
      then status_loop ds ts (False, if ds task = ''failed'' then True else failed)
      else status_loop ds ts (complete, failed))"

text \<open>\<^verbatim>\<open>LocationDownloadTask.objects.filter(location=deposit)\<close>.\<close>

definition tasks_of :: "world \<Rightarrow> string \<Rightarrow> LocationDownloadTask list" where
  "tasks_of w u =
     (case get_deposit w u of
        None \<Rightarrow> []
      | Some deposit \<Rightarrow> filter (\<lambda>t. location t = loc_uuid deposit) (tasks w))"

definition deposit_downloading_status ::
  "(LocationDownloadTask \<Rightarrow> string) \<Rightarrow> world \<Rightarrow> string \<Rightarrow> string"
where
  "deposit_downloading_status ds w deposit_uuid =
     (let ts = tasks_of w deposit_uuid in
      if length ts > 0 then
        (case status_loop ds ts (True, False) of
           (complete, failed) \<Rightarrow>
             if failed then ''failed''
             else if complete then ''complete''
             else ''incomplete'')
      else ''complete'')"

section \<open>Storage backends\<close>

text \<open>
  The protocol records of a Space. \<^verbatim>\<open>os.path.ismount\<close> holds of a directory that is a
  mount point; like \<^verbatim>\<open>os.path.isdir\<close> it answers False, and does not raise, where
  the path cannot be read.
\<close>

record LocalFilesystem =
  lf_space :: Space

record NFS =
  nfs_space :: Space
  nfs_remote_name :: string
  remote_path :: string
  version :: string
  manually_mounted :: bool

definition ismount :: "world \<Rightarrow> path \<Rightarrow> bool" where
  "ismount w p = (isdir (fs w) p \<and> p \<in> set (mounts w))"

text \<open>
  \<^verbatim>\<open>verify\<close> assigns to the fields of \<^verbatim>\<open>self.space\<close>; the model returns the
  protocol record with its space updated. \<open>now\<close> is \<^verbatim>\<open>datetime.datetime.now()\<close>.
  Neither function has a raising branch.
\<close>

definition LocalFilesystem_verify :: "world \<Rightarrow> nat \<Rightarrow> LocalFilesystem \<Rightarrow> LocalFilesystem" where
  "LocalFilesystem_verify w now self =
     (let verified' = isdir (fs w) (space_path (lf_space self)) in
      self\<lparr>lf_space := (lf_space self)\<lparr>verified := verified', last_verified := Some now\<rparr>\<rparr>)"

definition NFS_verify :: "world \<Rightarrow> nat \<Rightarrow> NFS \<Rightarrow> NFS" where
  "NFS_verify w now self =
     (if manually_mounted self then
        let verified' = ismount w (space_path (nfs_space self)) in
        self\<lparr>nfs_space := (nfs_space self)\<lparr>verified := verified', last_verified := Some now\<rparr>\<rparr>
      else self)"

text \<open>
  A stored file. \<^verbatim>\<open>store_aip\<close> talks to the operating system twice: \<open>makedirs d\<close> is
  the errno of the OSError that \<^verbatim>\<open>os.makedirs(d)\<close> raises (\<open>None\<close>: it returns), and
  \<open>call src dst\<close> is what \<^verbatim>\<open>subprocess.call(['rsync', '-a', src, dst])\<close> does: it
  returns the exit status of rsync, whatever it is, and raises only when the process cannot
  be started. \<^verbatim>\<open>common.utils.uuid_to_path\<close> is not among the sources and is the
  parameter of that name. The Python return value is \<open>None\<close> (falling off the end) or
  \<open>Some (-1)\<close>. The method has the same body in both protocol classes: \<open>store_aip\<close>
  is that body, over \<^verbatim>\<open>self.space\<close>.
\<close>

record File_row =
  file_uuid :: string
  origin_location :: Location
  origin_path :: path
  current_location :: Location
  current_path :: path

definition full_origin_path :: "File_row \<Rightarrow> path" where
  "full_origin_path f = full_path (origin_location f) @ origin_path f"

text \<open>
  The handler \<^verbatim>\<open>except CalledProcessError\<close> names a class that the module never
  imports: when \<^verbatim>\<open>subprocess.call\<close> raises, matching the exception against the
  handler raises NameError.
\<close>

definition store_aip ::
  "(string \<Rightarrow> path) \<Rightarrow> (path \<Rightarrow> nat option) \<Rightarrow> (path \<Rightarrow> path \<Rightarrow> exn + int) \<Rightarrow>
   Space \<Rightarrow> File_row \<Rightarrow> exn + int option"
where
  "store_aip uuid_to_path makedirs call self_space aip_file =
     (if space_uuid self_space \<noteq> space_uuid (space (current_location aip_file))
      then Inl AssertionError
      else
        let source = full_origin_path aip_file;
            path = uuid_to_path (file_uuid aip_file);
            destination = full_path (current_location aip_file) @ path @ current_path aip_file
        in
        case makedirs (butlast destination) of
          Some errno \<Rightarrow>
            if errno \<noteq> 17 then Inr (Some (- 1))
            else (case call source destination of
                    Inl e \<Rightarrow> Inl (NameError ''CalledProcessError'')
                  | Inr status \<Rightarrow> Inr None)
        | None \<Rightarrow>
            (case call source destination of
               Inl e \<Rightarrow> Inl (NameError ''CalledProcessError'')
             | Inr status \<Rightarrow> Inr None))"

definition LocalFilesystem_store_aip ::
  "(string \<Rightarrow> path) \<Rightarrow> (path \<Rightarrow> nat option) \<Rightarrow> (path \<Rightarrow> path \<Rightarrow> exn + int) \<Rightarrow>
   LocalFilesystem \<Rightarrow> File_row \<Rightarrow> exn + int option"
where
  "LocalFilesystem_store_aip uuid_to_path makedirs call self aip_file =
     store_aip uuid_to_path makedirs call (lf_space self) aip_file"

definition NFS_store_aip ::
  "(string \<Rightarrow> path) \<Rightarrow> (path \<Rightarrow> nat option) \<Rightarrow> (path \<Rightarrow> path \<Rightarrow> exn + int) \<Rightarrow>
   NFS \<Rightarrow> File_row \<Rightarrow> exn + int option"
where
  "NFS_store_aip uuid_to_path makedirs call self aip_file =
     store_aip uuid_to_path makedirs call (nfs_space self) aip_file"

section \<open>Requests, responses and the environment\<close>

text \<open>
  A Django request: its method (\<open>request_method\<close>), the header dictionary \<^verbatim>\<open>META\<close>, the query
  parameters \<^verbatim>\<open>GET\<close> and the body. A response is its status code and what was
  rendered; the templates are not among the sources, so a rendered document is the values
  the template receives.
\<close>

record request =
  request_method :: string
  META :: "string \<rightharpoonup> string"
  GET :: "string \<rightharpoonup> string"
  body :: string

datatype content =
    ErrorXml string string
  | ReceiptXml string
  | EntryXml string
  | Listing "string list"
  | NoContent

datatype response = HttpResponse nat content

datatype jval = JBool bool | JStr string | JNum int | JNull

type_synonym 'a result = "(exn + 'a) \<times> world"

text \<open>
  What the handlers take from outside this module: the methods
  \<^verbatim>\<open>downloading_status\<close> and \<^verbatim>\<open>has_been_submitted_for_processing\<close> of model classes
  that are not among the sources, the helpers
  \<^verbatim>\<open>pad_destination_filepath_if_it_already_exists\<close> and
  \<^verbatim>\<open>parse_filename_from_content_disposition\<close> of the missing \<^verbatim>\<open>helpers\<close> module,
  the network (\<^verbatim>\<open>urllib2.urlopen\<close> on a URL and form fields: the body of the answer, or
  an exception), \<^verbatim>\<open>json.loads\<close> on a body holding a JSON object, the lxml parse of a
  METS document (its LABEL and the hrefs of its FLocat elements, or XMLSyntaxError), the
  MD5 digest of a byte string, the path that the next temporary file gets, and the clock.
\<close>

record env =
  downloading_status :: "LocationDownloadTask \<Rightarrow> string"
  has_been_submitted_for_processing :: "world \<Rightarrow> Location \<Rightarrow> bool"
  pad_destination_filepath_if_it_already_exists :: "node \<Rightarrow> path \<Rightarrow> path"
  parse_filename_from_content_disposition :: "string \<Rightarrow> string"
  urlopen :: "string \<Rightarrow> (string \<times> string) list \<Rightarrow> exn + string"
  json_loads :: "string \<Rightarrow> exn + (string \<times> jval) list"
  mets_parse :: "string \<Rightarrow> exn + (string option \<times> string list)"
  md5 :: "string \<Rightarrow> string"
  mkstemp :: path
  timezone_now :: nat

text \<open>
  \<^verbatim>\<open>_sword_error_response\<close> with \<^verbatim>\<open>_sword_error_response_render\<close> and
  \<^verbatim>\<open>_error\<close>: the error document carries the summary and the requester's user agent,
  read with \<^verbatim>\<open>request.META['HTTP_USER_AGENT']\<close>, which raises KeyError when the
  request has no such header. (Python names that begin with an underscore lose it here.)
\<close>

definition sword_error_response :: "request \<Rightarrow> nat \<Rightarrow> string \<Rightarrow> exn + response" where
  "sword_error_response req status summary =
     (case META req ''HTTP_USER_AGENT'' of
        None \<Rightarrow> Inl (KeyError ''HTTP_USER_AGENT'')
      | Some user_agent \<Rightarrow> Inr (HttpResponse status (ErrorXml summary user_agent)))"



text \<open>\<^verbatim>\<open>os.path.basename\<close>, as a piece to join: the last component, nothing for the root.\<close>

definition basename :: "path \<Rightarrow> path" where
  "basename p = (if p = [] then [] else [last p])"





section \<open>Pipeline approval\<close>

text \<open>
  \<^verbatim>\<open>_activate_transfer_and_request_approval_from_pipeline\<close>. The check of the
  pipeline's credentials returns \<^verbatim>\<open>_sword_error_response(request, ...)\<close>, and the
  function has no \<^verbatim>\<open>request\<close>: evaluating the argument raises NameError.
  \<^verbatim>\<open>Location.objects.get\<close> raises unless exactly one row matches. The directory is
  moved, the call of \<^verbatim>\<open>urlopen\<close> is recorded in \<open>sent\<close>, and the bare
  \<^verbatim>\<open>except\<close> around it moves the directory back. (The four seconds of sleep between
  the move and the call are not modelled.)
\<close>

definition activate_transfer_and_request_approval_from_pipeline ::
  "env \<Rightarrow> world \<Rightarrow> Location \<Rightarrow> SwordServer \<Rightarrow> (string \<times> jval) list result"
where
  "activate_transfer_and_request_approval_from_pipeline e w deposit sword_server =
     (let p = ss_pipeline sword_server in
      if list_ex (\<lambda>property. property = []) [remote_name p, api_username p, api_key p]
      then (Inl (NameError ''request''), w)
      else
        case filter (\<lambda>l. pipeline l = Some (pipeline_uuid p) \<and> purpose l = ''CP'') (locations w) of
          [] \<Rightarrow> (Inl DoesNotExist, w)
        | processing_location # others \<Rightarrow>
            if others \<noteq> [] then (Inl MultipleObjectsReturned, w)
            else
              let destination_path =
                    pad_destination_filepath_if_it_already_exists e (fs w)
                      (full_path processing_location
                        @ [''watchedDirectories'', ''activeTransfers'', ''standardTransfer'']
                        @ basename (full_path deposit))
              in
              case move (full_path deposit) destination_path (fs w) of
                Inl ex \<Rightarrow> (Inl ex, w)
              | Inr t1 \<Rightarrow>
                  let data = [(''username'', api_username p), (''api_key'', api_key p),
                              (''directory'', concat (basename destination_path)),
                              (''type'', ''standard'')];
                      pipeline_endpoint_url = ''http://'' @ remote_name p @ ''/api/transfer/approve/'';
                      w1 = w\<lparr>fs := t1, sent := sent w @ [(pipeline_endpoint_url, data)]\<rparr>
                  in
                  case urlopen e pipeline_endpoint_url data of
                    Inl ex \<Rightarrow>
                      (case move destination_path (full_path deposit) (fs w1) of
                         Inl ex' \<Rightarrow> (Inl ex', w1)
                       | Inr t2 \<Rightarrow>
                           (Inr [(''error'', JBool True),
                                 (''message'', JStr (''Request to pipeline '' @ pipeline_uuid p
                                    @ '' transfer approval API failed: check credentials and REST API IP whitelist.''))],
                            w1\<lparr>fs := t2\<rparr>))
                  | Inr answer \<Rightarrow>
                      (case json_loads e answer of
                         Inl ex \<Rightarrow> (Inl ex, w1)
                       | Inr result \<Rightarrow> (Inr result, w1)))"

section \<open>Finalization\<close>



section \<open>Uploads\<close>




section \<open>The media and edit endpoints\<close>








section \<open>Example data\<close>

definition ex_space :: Space where
  "ex_space = \<lparr>space_uuid = ''s1'', access_protocol = ''FS'', space_path = [''var'', ''deposits''],
     verified = True, last_verified = None\<rparr>"

definition ex_deposit :: Location where
  "ex_deposit = \<lparr>loc_uuid = ''d1'', space = ex_space, purpose = ''SD'',
     relative_path = [''thesis''], description = ''Thesis'', pipeline = None,
     ready_for_finalization = False, deposit_completion_time = None\<rparr>"

definition ex_pipeline :: Pipeline where
  "ex_pipeline = \<lparr>pipeline_uuid = ''p1'', remote_name = ''mcp.example.org'',
     api_username = ''demo'', api_key = ''k3y''\<rparr>"

definition ex_sword_server :: SwordServer where
  "ex_sword_server = \<lparr>ss_pipeline = ex_pipeline, ss_space = ''s1''\<rparr>"

definition ex_processing :: Location where
  "ex_processing = \<lparr>loc_uuid = ''l2'',
     space = \<lparr>space_uuid = ''s2'', access_protocol = ''FS'', space_path = [''var'', ''shared''],
       verified = True, last_verified = None\<rparr>,
     purpose = ''CP'', relative_path = [], description = ''Processing'', pipeline = Some ''p1'',
     ready_for_finalization = False, deposit_completion_time = None\<rparr>"

definition ex_task :: "nat \<Rightarrow> nat \<Rightarrow> LocationDownloadTask" where
  "ex_task a c = \<lparr>location = ''d1'', downloads_attempted = a, downloads_completed = c,
     download_completion_time = Some 7\<rparr>"

definition ex_ds :: "LocationDownloadTask \<Rightarrow> string" where
  "ex_ds t = (if downloads_completed t = downloads_attempted t then ''complete'' else ''failed'')"

definition ex_env :: env where
  "ex_env = \<lparr>downloading_status = ex_ds,
     has_been_submitted_for_processing = (\<lambda>w d. deposit_completion_time d \<noteq> None),
     pad_destination_filepath_if_it_already_exists = (\<lambda>t p. p),
     parse_filename_from_content_disposition = (\<lambda>h. h),
     urlopen = (\<lambda>url data. Inl URLError),
     json_loads = (\<lambda>b. Inr [(''message'', JStr b)]),
     mets_parse = (\<lambda>b. Inl XMLSyntaxError),
     md5 = rev,
     mkstemp = [''tmp'', ''tmpA1''],
     timezone_now = 99\<rparr>"

definition ex_fs :: node where
  "ex_fs = Dir [(''var'', Dir [(''deposits'', Dir [(''thesis'', Dir [(''a.txt'', File ''abc'')])]),
                               (''shared'', Dir [])]),
                (''tmp'', Dir [])]"

definition ex_world :: world where
  "ex_world = \<lparr>fs = ex_fs, mounts = [], locations = [ex_deposit, ex_processing],
     tasks = [ex_task 2 2, ex_task 3 1], sword_servers = [ex_sword_server], spawned = [], sent = []\<rparr>"

definition ex_aip :: File_row where
  "ex_aip = \<lparr>file_uuid = ''abcd'', origin_location = ex_deposit, origin_path = [''aip.7z''],
     current_location = ex_deposit, current_path = [''aip.7z'']\<rparr>"

definition ex_nfs :: NFS where
  "ex_nfs = \<lparr>nfs_space = ex_space\<lparr>space_path := [''mnt'', ''nfs'']\<rparr>, nfs_remote_name = ''nas'',
     remote_path = ''/export'', version = ''nfs4'', manually_mounted = True\<rparr>"





section \<open>Properties\<close>

subsection \<open>The filesystem\<close>

lemma isdir_simps [simp]:
  "isdir (File b) p = False"
  "isdir (Dir es) [] = True"
  "isdir (Dir es) (x # xs) = (case map_of es x of None \<Rightarrow> False | Some c \<Rightarrow> isdir c xs)"
  by (cases p; simp add: isdir_def split: option.splits)+

lemma put_lookup_same: "put p v t = Some t' \<Longrightarrow> lookup t' p = v"
proof (induction p v t arbitrary: t' rule: put.induct)
  case (3 x v es)
  then show ?case by (cases v) (auto simp: update_conv' delete_conv')
next
  case (4 x y ys v es)
  then show ?case by (auto split: option.splits simp: update_conv')
qed simp_all

lemma put_lookup_other:
  "put p v t = Some t' \<Longrightarrow> \<not> prefix p q \<Longrightarrow> \<not> prefix q p \<Longrightarrow> lookup t' q = lookup t q"
proof (induction p v t arbitrary: t' q rule: put.induct)
  case (3 x v es)
  then show ?case by (cases q; cases v) (auto simp: update_conv' delete_conv')
next
  case (4 x y ys v es)
  then show ?case by (cases q) (auto split: option.splits simp: update_conv')
qed simp_all


lemma lookup_parent_isdir: "lookup t p = Some n \<Longrightarrow> p \<noteq> [] \<Longrightarrow> isdir t (butlast p)"
proof (induction t p rule: lookup.induct)
  case (3 es x xs)
  then show ?case by (cases xs) (auto split: option.splits)
qed simp_all

lemma put_succeeds: "p \<noteq> [] \<Longrightarrow> isdir t (butlast p) \<Longrightarrow> \<exists>t'. put p v t = Some t'"
proof (induction p v t rule: put.induct)
  case (4 x y ys v es)
  then show ?case by (auto split: option.splits)
qed simp_all

lemma mkdirs_existing: "isdir t p \<Longrightarrow> mkdirs p t = Some t"
proof (induction p t rule: mkdirs.induct)
  case (1 t)
  then show ?case by (cases t) auto
next
  case (3 x xs es)
  then show ?case by (auto split: option.splits intro: update_triv)
qed simp_all

lemma lookup_append_None: "lookup t p = None \<Longrightarrow> lookup t (p @ q) = None"
  by (induction t p rule: lookup.induct) (auto split: option.splits)

lemma put_parent_isdir: "put p v t = Some t' \<Longrightarrow> isdir t' (butlast p)"
proof (induction p v t arbitrary: t' rule: put.induct)
  case (4 x y ys v es)
  then show ?case by (auto split: option.splits simp: update_conv')
qed auto

lemma move_dir_unfold:
  assumes "move P Q t = Inr t1" "lookup t P = Some (Dir es)" "\<not> exists t Q"
  shows "\<not> prefix P Q \<and> (\<exists>ta tb. mkdirs (butlast Q) t = Some ta \<and> put Q (Some (Dir es)) ta = Some tb
            \<and> put P None tb = Some t1)"
proof -
  from assms(3) have nd: "\<not> isdir t Q"
    by (simp add: exists_def isdir_def)
  from assms(1) nd assms(2) assms(3) show ?thesis
    by (auto simp: move_def Let_def split: if_splits option.splits)
qed

lemma move_dir_roundtrip:
  assumes mv: "move P Q t = Inr t1"
    and src: "lookup t P = Some (Dir es)"
    and dst: "\<not> exists t Q"
  shows "lookup t1 Q = Some (Dir es) \<and> lookup t1 P = None
    \<and> (\<exists>t2. move Q P t1 = Inr t2 \<and> lookup t2 P = Some (Dir es) \<and> lookup t2 Q = None)"
proof -
  from move_dir_unfold [OF mv src dst] obtain ta tb where
    npq: "\<not> prefix P Q" and
    a: "mkdirs (butlast Q) t = Some ta" and
    b: "put Q (Some (Dir es)) ta = Some tb" and
    c: "put P None tb = Some t1"
    by blast
  have nqp: "\<not> prefix Q P"
  proof
    assume "prefix Q P"
    then obtain r where "P = Q @ r" by (auto simp: prefix_def)
    moreover from dst have "lookup t (Q @ r) = None"
      by (simp add: exists_def lookup_append_None)
    ultimately show False using src by simp
  qed
  have Pne: "P \<noteq> []" using c by auto
  have Qne: "Q \<noteq> []" using b by auto
  have tbQ: "lookup tb Q = Some (Dir es)" using put_lookup_same [OF b] .
  have t1Q: "lookup t1 Q = Some (Dir es)"
    using put_lookup_other [OF c npq nqp] tbQ by simp
  have t1P: "lookup t1 P = None" using put_lookup_same [OF c] .
  have ndP: "\<not> isdir t1 P" using t1P by (simp add: isdir_def)
  have nxP: "\<not> exists t1 P" using t1P by (simp add: exists_def)
  have par: "isdir t1 (butlast P)" using put_parent_isdir [OF c] .
  have mk: "mkdirs (butlast P) t1 = Some t1" using mkdirs_existing [OF par] .
  obtain td where d: "put P (Some (Dir es)) t1 = Some td"
    using put_succeeds [OF Pne par] by blast
  have tdQ: "lookup td Q = Some (Dir es)"
    using put_lookup_other [OF d npq nqp] t1Q by simp
  have parQ: "isdir td (butlast Q)" using lookup_parent_isdir [OF tdQ Qne] .
  obtain t2 where f: "put Q None td = Some t2"
    using put_succeeds [OF Qne parQ] by blast
  have t2P: "lookup t2 P = Some (Dir es)"
    using put_lookup_other [OF f nqp npq] put_lookup_same [OF d] by simp
  have t2Q: "lookup t2 Q = None" using put_lookup_same [OF f] .
  have "move Q P t1 = Inr t2"
    using ndP nxP t1Q nqp mk d f by (simp add: move_def)
  with t1Q t1P t2P t2Q show ?thesis by blast
qed

subsection \<open>Aggregate downloading status\<close>

lemma status_loop_complete:
  "fst (status_loop ds ts (c, f)) \<longleftrightarrow> c \<and> (\<forall>t \<in> set ts. ds t = ''complete'')"
  by (induction ts arbitrary: c f) auto

lemma status_loop_failed:
  "snd (status_loop ds ts (c, f)) \<longleftrightarrow> f \<or> (\<exists>t \<in> set ts. ds t = ''failed'')"
  by (induction ts arbitrary: c f) auto

text \<open>
  Claim C1. The aggregate downloading status of a deposit is one of complete, incomplete
  and failed: it is complete exactly when the deposit has no download task or every task's
  status is complete, failed exactly when some task's status is failed, and incomplete
  exactly when some task is not complete and none is failed.
\<close>

theorem deposit_downloading_status_cases:
  fixes ds w u
  defines "ts \<equiv> tasks_of w u"
  defines "r \<equiv> deposit_downloading_status ds w u"
  shows "r \<in> {''complete'', ''incomplete'', ''failed''}
    \<and> (r = ''complete'' \<longleftrightarrow> ts = [] \<or> (\<forall>t \<in> set ts. ds t = ''complete''))
    \<and> (r = ''failed'' \<longleftrightarrow> (\<exists>t \<in> set ts. ds t = ''failed''))
    \<and> (r = ''incomplete'' \<longleftrightarrow>
         (\<exists>t \<in> set ts. ds t \<noteq> ''complete'') \<and> \<not> (\<exists>t \<in> set ts. ds t = ''failed''))"
proof (cases "ts = []")
  case True
  then show ?thesis
    by (simp add: r_def deposit_downloading_status_def ts_def [symmetric])
next
  case False
  obtain c f where cf: "status_loop ds ts (True, False) = (c, f)"
    by (cases "status_loop ds ts (True, False)")
  have c: "c \<longleftrightarrow> (\<forall>t \<in> set ts. ds t = ''complete'')"
    using status_loop_complete [of ds ts True False] cf by simp
  have f: "f \<longleftrightarrow> (\<exists>t \<in> set ts. ds t = ''failed'')"
    using status_loop_failed [of ds ts True False] cf by simp
  have r: "r = (if f then ''failed'' else if c then ''complete'' else ''incomplete'')"
    using False cf
    by (simp add: r_def deposit_downloading_status_def ts_def [symmetric])
  have ne: "\<not> c \<Longrightarrow> \<exists>t \<in> set ts. ds t \<noteq> ''complete''"
    using c by blast
  have fc: "f \<Longrightarrow> \<not> c"
    using c f by fastforce
  have r1: "r \<in> {''complete'', ''incomplete'', ''failed''}"
    using r by simp
  have r2: "r = ''complete'' \<longleftrightarrow> ts = [] \<or> (\<forall>t \<in> set ts. ds t = ''complete'')"
    using r c fc False by (cases f; cases c) simp_all
  have r3: "r = ''failed'' \<longleftrightarrow> (\<exists>t \<in> set ts. ds t = ''failed'')"
    using r f by (cases f; cases c) simp_all
  have r4: "r = ''incomplete'' \<longleftrightarrow>
      (\<exists>t \<in> set ts. ds t \<noteq> ''complete'') \<and> \<not> (\<exists>t \<in> set ts. ds t = ''failed'')"
    using r f c fc by (cases f; cases c) simp_all
  from r1 r2 r3 r4 show ?thesis by blast
qed

theorem deposit_downloading_status_cases_witness:
  "deposit_downloading_status ex_ds ex_world ''d1'' = ''failed''
   \<and> (\<exists>t \<in> set (tasks_of ex_world ''d1''). ex_ds t = ''failed'')"
  using deposit_downloading_status_cases [of ex_ds ex_world "''d1''"]
  by (simp add: tasks_of_def get_deposit_def ex_world_def ex_deposit_def ex_task_def ex_ds_def)

subsection \<open>Storage backends\<close>

text \<open>
  Claim C8. Verifying a local-filesystem space whose root path does not exist, or a
  manually mounted NFS space whose root path does not exist or is not a mount point, sets
  the space's verified flag to false and its last-verified time to the current time. No
  exception is involved: both functions are total and have no error result.
\<close>

theorem verify_unreachable_root:
  "(\<not> exists (fs w) (space_path (lf_space l)) \<longrightarrow>
      verified (lf_space (LocalFilesystem_verify w now l)) = False
      \<and> last_verified (lf_space (LocalFilesystem_verify w now l)) = Some now)
   \<and> (manually_mounted n \<and>
        (\<not> exists (fs w) (space_path (nfs_space n)) \<or> space_path (nfs_space n) \<notin> set (mounts w)) \<longrightarrow>
      verified (nfs_space (NFS_verify w now n)) = False
      \<and> last_verified (nfs_space (NFS_verify w now n)) = Some now)"
  by (auto simp: LocalFilesystem_verify_def NFS_verify_def ismount_def isdir_def exists_def
           split: option.splits node.splits)

theorem verify_unreachable_root_witness:
  "\<not> exists (fs ex_world) [''nowhere'']
   \<and> verified (lf_space (LocalFilesystem_verify ex_world 42 \<lparr>lf_space = ex_space\<lparr>space_path := [''nowhere'']\<rparr>\<rparr>)) = False
   \<and> manually_mounted ex_nfs
   \<and> verified (nfs_space (NFS_verify ex_world 42 ex_nfs)) = False
   \<and> last_verified (nfs_space (NFS_verify ex_world 42 ex_nfs)) = Some 42"
  using verify_unreachable_root
    [of ex_world "\<lparr>lf_space = ex_space\<lparr>space_path := [''nowhere'']\<rparr>\<rparr>" 42 ex_nfs]
  by (simp add: exists_def ex_world_def ex_fs_def ex_nfs_def ex_space_def)

text \<open>
  Claim C10. Verifying an NFS space that is not manually mounted changes nothing: the
  verified flag and the last-verified time of the space stay as they were.
\<close>

theorem NFS_verify_not_manually_mounted:
  "\<not> manually_mounted n \<Longrightarrow> NFS_verify w now n = n"
  by (simp add: NFS_verify_def)

theorem NFS_verify_not_manually_mounted_witness:
  "\<not> manually_mounted (ex_nfs\<lparr>manually_mounted := False\<rparr>)
   \<and> NFS_verify ex_world 42 (ex_nfs\<lparr>manually_mounted := False\<rparr>) = ex_nfs\<lparr>manually_mounted := False\<rparr>
   \<and> verified (nfs_space (NFS_verify ex_world 42 (ex_nfs\<lparr>manually_mounted := False\<rparr>))) = True"
  using NFS_verify_not_manually_mounted [of "ex_nfs\<lparr>manually_mounted := False\<rparr>" ex_world 42]
  by (simp add: ex_nfs_def ex_space_def)

lemma store_aip_makedirs_failure:
  "space_uuid sp = space_uuid (space (current_location f)) \<Longrightarrow>
   makedirs (butlast (full_path (current_location f) @ u2p (file_uuid f) @ current_path f)) = Some errno \<Longrightarrow>
   errno \<noteq> 17 \<Longrightarrow>
   store_aip u2p makedirs call sp f = Inr (Some (- 1))"
  by (simp add: store_aip_def)

lemma store_aip_ignores_status:
  "space_uuid sp = space_uuid (space (current_location f)) \<Longrightarrow>
   call (full_origin_path f) (full_path (current_location f) @ u2p (file_uuid f) @ current_path f) = Inr status \<Longrightarrow>
   store_aip u2p makedirs call sp f \<noteq> Inr (Some (- 1)) \<Longrightarrow>
   store_aip u2p makedirs call sp f = Inr None"
  by (auto simp: store_aip_def Let_def split: option.splits if_splits)

text \<open>
  Claim C5, at a failing input. The parent directory is created and rsync exits with
  status 23: storing the file returns as it does when rsync exits with status 0, for both
  protocol classes, and no error is reported.
\<close>

theorem store_aip_nonzero_status_unreported:
  "LocalFilesystem_store_aip (\<lambda>u. [u]) (\<lambda>d. None) (\<lambda>src dst. Inr 23) \<lparr>lf_space = ex_space\<rparr> ex_aip = Inr None
   \<and> NFS_store_aip (\<lambda>u. [u]) (\<lambda>d. None) (\<lambda>src dst. Inr 23) ex_nfs ex_aip = Inr None
   \<and> LocalFilesystem_store_aip (\<lambda>u. [u]) (\<lambda>d. None) (\<lambda>src dst. Inr 0) \<lparr>lf_space = ex_space\<rparr> ex_aip = Inr None"
  by (simp add: LocalFilesystem_store_aip_def NFS_store_aip_def store_aip_def
        ex_aip_def ex_deposit_def ex_space_def ex_nfs_def)

subsection \<open>Pipeline approval\<close>

lemma activate_misconfigured:
  "remote_name (ss_pipeline ss) = [] \<or> api_username (ss_pipeline ss) = [] \<or> api_key (ss_pipeline ss) = [] \<Longrightarrow>
   activate_transfer_and_request_approval_from_pipeline e w d ss = (Inl (NameError ''request''), w)"
  by (auto simp: activate_transfer_and_request_approval_from_pipeline_def Let_def)

text \<open>
  Claim C7, at a failing input. The pipeline of the deposit's server has an empty API key:
  the approval raises NameError (the error response is built from a \<open>request\<close> that the
  function does not have) instead of returning an error response with status 500. The
  world is as it was: nothing was moved and nothing was sent.
\<close>

theorem activate_empty_api_key_raises:
  "activate_transfer_and_request_approval_from_pipeline ex_env ex_world ex_deposit
     (ex_sword_server\<lparr>ss_pipeline := ex_pipeline\<lparr>api_key := ''''\<rparr>\<rparr>)
   = (Inl (NameError ''request''), ex_world)"
  by (simp add: activate_transfer_and_request_approval_from_pipeline_def ex_sword_server_def
        ex_pipeline_def)

text \<open>
  Claim C6. The pipeline is configured and has one processing location, the padded
  destination is free, and the deposit directory has been moved there. When the approval
  request then fails in transport, the approval returns an error outcome, the deposit
  directory is back at its original path with its entries, nothing is left at the
  destination, and no row of the database has changed, so the deposit is as unsubmitted as
  before.
\<close>

theorem activate_transport_failure_moves_back:
  fixes e w d ss
  defines "p \<equiv> ss_pipeline ss"
  assumes creds: "remote_name p \<noteq> []" "api_username p \<noteq> []" "api_key p \<noteq> []"
    and processing: "filter (\<lambda>l. pipeline l = Some (pipeline_uuid p) \<and> purpose l = ''CP'') (locations w) = [pl]"
    and destination: "Q = pad_destination_filepath_if_it_already_exists e (fs w)
        (full_path pl @ [''watchedDirectories'', ''activeTransfers'', ''standardTransfer'']
           @ basename (full_path d))"
    and padded: "\<not> exists (fs w) Q"
    and deposit_dir: "lookup (fs w) (full_path d) = Some (Dir es)"
    and moved: "move (full_path d) Q (fs w) = Inr t1"
    and transport: "urlopen e (''http://'' @ remote_name p @ ''/api/transfer/approve/'')
        [(''username'', api_username p), (''api_key'', api_key p),
         (''directory'', concat (basename Q)), (''type'', ''standard'')] = Inl ex"
  shows "\<exists>w'. activate_transfer_and_request_approval_from_pipeline e w d ss =
           (Inr [(''error'', JBool True),
                 (''message'', JStr (''Request to pipeline '' @ pipeline_uuid p
                    @ '' transfer approval API failed: check credentials and REST API IP whitelist.''))], w')
         \<and> lookup (fs w') (full_path d) = Some (Dir es)
         \<and> \<not> exists (fs w') Q
         \<and> locations w' = locations w"
proof -
  from move_dir_roundtrip [OF moved deposit_dir padded] obtain t2 where
    undo: "move Q (full_path d) t1 = Inr t2" and
    t2P: "lookup t2 (full_path d) = Some (Dir es)" and
    t2Q: "lookup t2 Q = None"
    by blast
  have "activate_transfer_and_request_approval_from_pipeline e w d ss =
      (Inr [(''error'', JBool True),
            (''message'', JStr (''Request to pipeline '' @ pipeline_uuid p
               @ '' transfer approval API failed: check credentials and REST API IP whitelist.''))],
       w\<lparr>fs := t2, sent := sent w @ [(''http://'' @ remote_name p @ ''/api/transfer/approve/'',
          [(''username'', api_username p), (''api_key'', api_key p),
           (''directory'', concat (basename Q)), (''type'', ''standard'')])]\<rparr>)"
    using creds processing destination [symmetric] moved transport undo
    unfolding activate_transfer_and_request_approval_from_pipeline_def p_def [symmetric]
    by (simp add: Let_def)
  then show ?thesis using t2P t2Q by (simp add: exists_def)
qed

theorem activate_transport_failure_moves_back_witness:
  "\<exists>w'. activate_transfer_and_request_approval_from_pipeline ex_env ex_world ex_deposit ex_sword_server =
           (Inr [(''error'', JBool True),
                 (''message'', JStr ''Request to pipeline p1 transfer approval API failed: check credentials and REST API IP whitelist.'')], w')
         \<and> lookup (fs w') [''var'', ''deposits'', ''thesis''] = Some (Dir [(''a.txt'', File ''abc'')])
         \<and> \<not> exists (fs w') [''var'', ''shared'', ''watchedDirectories'', ''activeTransfers'', ''standardTransfer'', ''thesis'']
         \<and> locations w' = locations ex_world"
proof -
  let ?Q = "[''var'', ''shared'', ''watchedDirectories'', ''activeTransfers'', ''standardTransfer'', ''thesis'']"
  let ?t1 = "Dir [(''var'', Dir [(''deposits'', Dir []),
      (''shared'', Dir [(''watchedDirectories'', Dir [(''activeTransfers'', Dir [(''standardTransfer'',
         Dir [(''thesis'', Dir [(''a.txt'', File ''abc'')])])])])])]), (''tmp'', Dir [])]"
  have fp: "full_path ex_deposit = [''var'', ''deposits'', ''thesis'']"
    by (simp add: full_path_def ex_deposit_def ex_space_def)
  have fpl: "full_path ex_processing = [''var'', ''shared'']"
    by (simp add: full_path_def ex_processing_def)
  have 1: "remote_name (ss_pipeline ex_sword_server) \<noteq> []"
    "api_username (ss_pipeline ex_sword_server) \<noteq> []"
    "api_key (ss_pipeline ex_sword_server) \<noteq> []"
    by (simp_all add: ex_sword_server_def ex_pipeline_def)
  have 2: "filter (\<lambda>l. pipeline l = Some (pipeline_uuid (ss_pipeline ex_sword_server)) \<and> purpose l = ''CP'')
      (locations ex_world) = [ex_processing]"
    by (simp add: ex_world_def ex_sword_server_def ex_pipeline_def ex_deposit_def ex_processing_def)
  have 3: "?Q = pad_destination_filepath_if_it_already_exists ex_env (fs ex_world)
        (full_path ex_processing @ [''watchedDirectories'', ''activeTransfers'', ''standardTransfer'']
           @ basename (full_path ex_deposit))"
    by (simp add: ex_env_def fp fpl basename_def)
  have 4: "\<not> exists (fs ex_world) ?Q"
    by (simp add: exists_def ex_world_def ex_fs_def)
  have 5: "lookup (fs ex_world) (full_path ex_deposit) = Some (Dir [(''a.txt'', File ''abc'')])"
    by (simp add: fp ex_world_def ex_fs_def)
  have 6: "move (full_path ex_deposit) ?Q (fs ex_world) = Inr ?t1"
    by (simp add: fp move_def isdir_def exists_def ex_world_def ex_fs_def)
  have 7: "urlopen ex_env (''http://'' @ remote_name (ss_pipeline ex_sword_server) @ ''/api/transfer/approve/'')
        [(''username'', api_username (ss_pipeline ex_sword_server)), (''api_key'', api_key (ss_pipeline ex_sword_server)),
         (''directory'', concat (basename ?Q)), (''type'', ''standard'')] = Inl URLError"
    by (simp add: ex_env_def)
  show ?thesis
    using activate_transport_failure_moves_back [OF 1 2 3 4 5 6 7]
    by (simp add: fp ex_sword_server_def ex_pipeline_def)
qed

subsection \<open>Error responses\<close>


lemma sword_error_response_cases:
  "sword_error_response req status summary = Inl (KeyError ''HTTP_USER_AGENT'')
   \<or> (\<exists>ua. sword_error_response req status summary = Inr (HttpResponse status (ErrorXml summary ua)))"
  by (simp add: sword_error_response_def split: option.splits)

subsection \<open>Uploads\<close>






subsection \<open>The submitted guard\<close>



subsection \<open>Finalization\<close>











end
